theory Spec2Isabelle
  imports Main
begin

section \<open>Session-based authentication (session\_auth): the embedding\<close>

text \<open>
  The program is an Express application with three pieces of behaviour:
  the router of \<^verbatim>\<open>routes/user.routes.js\<close> (POST /signup and POST /login), the global
  session middleware of \<^verbatim>\<open>index.js\<close> and the greeting route GET /.
  Everything the handlers read from outside the request is made explicit:
  \<^item> the relational store is a value of type \<open>store\<close>, passed in and returned;
  \<^item> the values drawn by \<^verbatim>\<open>randomBytes\<close>, by the store's \<^verbatim>\<open>defaultRandom()\<close> and
    \<^verbatim>\<open>defaultNow()\<close>, and the failures of the store are fields of an environment \<open>env\<close>,
    one environment per request;
  \<^item> \<^verbatim>\<open>createHmac('sha256', key).update(data).digest('hex')\<close> is a parameter \<open>H\<close> of type
    \<open>string \<Rightarrow> string \<Rightarrow> string\<close> (key first): a deterministic function of which nothing else
    is assumed;
  \<^item> an exception that leaves an \<^verbatim>\<open>async\<close> handler (no handler has a try/catch) is the
    outcome \<open>Rejected\<close>.
\<close>

subsection \<open>JavaScript values of the request\<close>

text \<open>
  A field of \<^verbatim>\<open>req.body\<close> is absent (\<^verbatim>\<open>undefined\<close>), a string, or another JSON value:
  null, a boolean, a number, an array or an object. The code does three things with
  such a value: it tests it (\<^verbatim>\<open>!v\<close>), it prints it in a template literal, and it hands it
  to the store as a query parameter; a value that is not a string is given by what
  these three make of it. \<open>Other b s p\<close> is a value that is truthy iff \<open>b\<close>, that
  \<^verbatim>\<open>String(v)\<close> prints as \<open>s\<close>, and that the driver sends to the store as the text \<open>p\<close>
  (\<open>None\<close>: as NULL). So \<^verbatim>\<open>123\<close> is \<open>Other True ''123'' (Some ''123'')\<close>, \<^verbatim>\<open>0\<close> is
  \<open>Other False ''0'' (Some ''0'')\<close>, \<^verbatim>\<open>true\<close> is \<open>Other True ''true'' (Some ''true'')\<close>,
  \<^verbatim>\<open>null\<close> is \<open>Other False ''null'' None\<close>, and the object \<^verbatim>\<open>{}\<close> is
  \<open>Other True ''[object Object]'' (Some ''{}'')\<close>.
  The header \<^verbatim>\<open>req.headers['session-id']\<close> is absent or a string, never another value.
\<close>

datatype jsval = Undefined | Str string | Other bool string "string option"

text \<open>
  \<^verbatim>\<open>!v\<close>: \<^verbatim>\<open>undefined\<close>, the empty string, \<^verbatim>\<open>null\<close>, \<^verbatim>\<open>false\<close> and \<^verbatim>\<open>0\<close> are falsy.
\<close>

fun falsy :: "jsval \<Rightarrow> bool" where
  "falsy Undefined = True"
| "falsy (Str s) = (s = [])"
| "falsy (Other b s p) = (\<not> b)"

text \<open>The template literal \<^verbatim>\<open>`${v}`\<close>.\<close>

fun template :: "jsval \<Rightarrow> string" where
  "template Undefined = ''undefined''"
| "template (Str s) = s"
| "template (Other b s p) = s"

text \<open>
  A value as a query parameter: the text the driver sends, \<open>None\<close> for what it sends
  as NULL (\<^verbatim>\<open>undefined\<close> and \<^verbatim>\<open>null\<close>).
\<close>

fun query_param :: "jsval \<Rightarrow> string option" where
  "query_param Undefined = None"
| "query_param (Str s) = Some s"
| "query_param (Other b s p) = p"

text \<open>
  Letter case as Express ignores it when it matches a path: the ASCII capital letters
  are mapped to their small letters.
\<close>

definition to_lower :: "char \<Rightarrow> char" where
  "to_lower c =
     (case map_of (zip ''ABCDEFGHIJKLMNOPQRSTUVWXYZ'' ''abcdefghijklmnopqrstuvwxyz'') c of
        None \<Rightarrow> c
      | Some l \<Rightarrow> l)"

subsection \<open>Responses and outcomes\<close>

text \<open>A JSON object whose values are strings, in key order.\<close>

type_synonym json_obj = "(string \<times> string) list"

datatype payload = Json json_obj | Text string

datatype exn = TypeError | StoreError string

text \<open>
  \<open>Responded n p\<close> is \<^verbatim>\<open>res.status(n).json(obj)\<close> or \<^verbatim>\<open>res.send(text)\<close>;
  \<open>Rejected x\<close> is an exception leaving the handler: the handler itself sends nothing;
  \<open>Fallthrough\<close> is a request for which no route of the application matched (Express
  answers it with its built-in 404).
\<close>

datatype outcome = Responded nat payload | Rejected exn | Fallthrough

fun status_of :: "outcome \<Rightarrow> nat option" where
  "status_of (Responded n p) = Some n"
| "status_of (Rejected x) = None"
| "status_of Fallthrough = Some 404"

subsection \<open>The store: the relations of db/schema.js\<close>

text \<open>
  \<^verbatim>\<open>usersTable\<close>: id uuid primary key, name not null, email not null unique,
  password not null, salt nullable.
  \<^verbatim>\<open>userSessions\<close>: id uuid primary key, userId nullable referencing users.id,
  createdAt not null default now.
  A uuid is modelled by its canonical text.
\<close>

type_synonym uuid = string

record user_row =
  user_id :: uuid
  user_name :: string
  user_email :: string
  user_password :: string
  user_salt :: "string option"

record session_row =
  session_id :: uuid
  session_userId :: "uuid option"
  session_createdAt :: nat

record store =
  usersTable :: "user_row list"
  userSessions :: "session_row list"

text \<open>
  What one request draws from outside: the hex string of \<^verbatim>\<open>randomBytes(256)\<close>, the uuid
  and the timestamp the store generates for an inserted row, and whether the store
  fails a select or an insert of this request (with the store's own error text). A store
  operation either completes or fails as a whole; any rejection by the store that the
  operations below do not describe (a lost connection, a value longer than its column
  allows) is such a failure.
  \<open>uuid_in e t\<close> is the store's reading of a text as a value of the column type uuid:
  the uuid that \<open>t\<close> denotes, or \<open>None\<close> when \<open>t\<close> is not uuid syntax.
\<close>

record env =
  randomBytes_hex :: string
  gen_random_uuid :: uuid
  now :: nat
  select_fault :: "string option"
  insert_fault :: "string option"
  uuid_in :: "string \<Rightarrow> uuid option"

definition not_null_violation :: string where
  "not_null_violation = ''null value violates not-null constraint''"

definition unique_violation :: string where
  "unique_violation = ''duplicate key value violates unique constraint''"

definition foreign_key_violation :: string where
  "foreign_key_violation = ''insert violates foreign key constraint''"

definition invalid_uuid_syntax :: string where
  "invalid_uuid_syntax = ''invalid input syntax for type uuid''"

text \<open>
  \<^verbatim>\<open>db.select(..).from(usersTable).where((table) => eq(table.email, email))\<close>:
  the rows whose email is exactly the text of the parameter, in table order. An email
  sent as NULL equals no row.
\<close>

definition select_users_by_email :: "env \<Rightarrow> store \<Rightarrow> jsval \<Rightarrow> exn + user_row list" where
  "select_users_by_email e db email =
     (case select_fault e of
        Some d \<Rightarrow> Inl (StoreError d)
      | None \<Rightarrow> Inr (filter (\<lambda>u. Some (user_email u) = query_param email) (usersTable db)))"

text \<open>
  \<^verbatim>\<open>db.insert(usersTable).values({name, email, password, salt}).returning({id})\<close>:
  a single-row insert. An \<^verbatim>\<open>undefined\<close> value is sent as DEFAULT and \<^verbatim>\<open>null\<close> as NULL,
  which the not-null columns name and email reject; every other value is stored as its
  text; email is unique; the generated id is the primary key.
\<close>

definition insert_user ::
  "env \<Rightarrow> store \<Rightarrow> jsval \<Rightarrow> jsval \<Rightarrow> string \<Rightarrow> string \<Rightarrow> exn + (uuid \<times> store)" where
  "insert_user e db name email password salt =
     (case insert_fault e of
        Some d \<Rightarrow> Inl (StoreError d)
      | None \<Rightarrow>
          (case query_param name of
             None \<Rightarrow> Inl (StoreError not_null_violation)
           | Some n \<Rightarrow>
               (case query_param email of
                  None \<Rightarrow> Inl (StoreError not_null_violation)
                | Some m \<Rightarrow>
                    if m \<in> set (map user_email (usersTable db))
                    then Inl (StoreError unique_violation)
                    else if gen_random_uuid e \<in> set (map user_id (usersTable db))
                    then Inl (StoreError unique_violation)
                    else Inr (gen_random_uuid e,
                      db\<lparr>usersTable := usersTable db @
                        [\<lparr>user_id = gen_random_uuid e, user_name = n, user_email = m,
                          user_password = password, user_salt = Some salt\<rparr>]\<rparr>))))"

text \<open>
  \<^verbatim>\<open>db.insert(userSessions).values({userId}).returning({id})\<close>: a single-row insert;
  userId references an existing user; the generated id is the primary key.
\<close>

definition insert_session :: "env \<Rightarrow> store \<Rightarrow> uuid \<Rightarrow> exn + (session_row \<times> store)" where
  "insert_session e db uid =
     (case insert_fault e of
        Some d \<Rightarrow> Inl (StoreError d)
      | None \<Rightarrow>
          if uid \<notin> set (map user_id (usersTable db))
          then Inl (StoreError foreign_key_violation)
          else if gen_random_uuid e \<in> set (map session_id (userSessions db))
          then Inl (StoreError unique_violation)
          else Inr (\<lparr>session_id = gen_random_uuid e, session_userId = Some uid,
                      session_createdAt = now e\<rparr>,
                    db\<lparr>userSessions := userSessions db @
                      [\<lparr>session_id = gen_random_uuid e, session_userId = Some uid,
                        session_createdAt = now e\<rparr>]\<rparr>))"

text \<open>
  \<^verbatim>\<open>db.select({id: userSessions.id, userId: userSessions.userId, name: usersTable.name,
  email: usersTable.email}).from(userSessions).innerJoin(usersTable,
  eq(userSessions.userId, usersTable.id)).where(eq(userSessions.id, sessionId))\<close>:
  one object per pair of a session and a user that the join condition relates, for the
  sessions with the given id. The id is sent as text and compared with a column of type
  uuid: a text that is not uuid syntax makes the store reject the statement (the
  README's ``invalid input syntax for type uuid''). The id comes from a request header,
  which is a string or absent; an absent id is sent as NULL, which equals no row (and
  a value of another kind, which no header has, is given no row either).
\<close>

definition joined_row :: "session_row \<Rightarrow> user_row \<Rightarrow> json_obj" where
  "joined_row s u =
     [(''id'', session_id s), (''userId'', user_id u),
      (''name'', user_name u), (''email'', user_email u)]"

definition select_session_join_user :: "env \<Rightarrow> store \<Rightarrow> jsval \<Rightarrow> exn + json_obj list" where
  "select_session_join_user e db sessionId =
     (case select_fault e of
        Some d \<Rightarrow> Inl (StoreError d)
      | None \<Rightarrow>
          (case sessionId of
             Undefined \<Rightarrow> Inr []
           | Str t \<Rightarrow>
               (case uuid_in e t of
                  None \<Rightarrow> Inl (StoreError invalid_uuid_syntax)
                | Some i \<Rightarrow>
                    Inr (concat (map (\<lambda>s. map (joined_row s)
                           (filter (\<lambda>u. session_userId s = Some (user_id u)
                                         \<and> session_id s = i) (usersTable db)))
                         (userSessions db))))
           | Other b s p \<Rightarrow> Inr []))"

subsection \<open>Password hashing\<close>

text \<open>
  \<^verbatim>\<open>createHmac('sha256', key).update(data).digest('hex')\<close>: the key must be a string
  (a NULL salt read from the store throws) and so must the data: \<^verbatim>\<open>update\<close> throws a
  TypeError for \<^verbatim>\<open>undefined\<close> and for every JSON value that is not a string.
\<close>

definition hmac_hex :: "(string \<Rightarrow> string \<Rightarrow> string) \<Rightarrow> string option \<Rightarrow> jsval \<Rightarrow> exn + string" where
  "hmac_hex H key data =
     (case key of
        None \<Rightarrow> Inl TypeError
      | Some k \<Rightarrow>
          (case data of
             Undefined \<Rightarrow> Inl TypeError
           | Str m \<Rightarrow> Inr (H k m)
           | Other b s p \<Rightarrow> Inl TypeError))"

subsection \<open>Requests\<close>

text \<open>
  The methods the source routes on, and any other method by its name (what Express does
  on its own for HEAD and OPTIONS is not modelled).
\<close>

datatype http_method = GET | POST | OtherMethod string

text \<open>
  \<open>req_path\<close> is the path of the request, cut at its slashes: \<open>[''user'', ''signup'']\<close> is
  \<^verbatim>\<open>/user/signup\<close>, a slash at the end leaves a last empty piece
  (\<open>[''user'', ''signup'', ]\<close> is \<^verbatim>\<open>/user/signup/\<close>), and \<^verbatim>\<open>/\<close> is \<open>[]\<close> or \<open>[]\<close>.
  The body fields are those of
  \<^verbatim>\<open>req.body\<close> after \<^verbatim>\<open>express.json()\<close> has parsed it. \<open>req_user\<close> is the property
  \<^verbatim>\<open>req.user\<close>, absent when a request arrives.
\<close>

record request =
  req_method :: http_method
  req_path :: "string list"
  req_session_id :: jsval
  body_name :: jsval
  body_email :: jsval
  body_password :: jsval
  req_user :: "json_obj option"

subsection \<open>routes/user.routes.js\<close>

definition user_exists_error :: "jsval \<Rightarrow> payload" where
  "user_exists_error email =
     Json [(''error'', ''User with email '' @ template email @ '' already exists'')]"

definition signup ::
  "(string \<Rightarrow> string \<Rightarrow> string) \<Rightarrow> env \<Rightarrow> store \<Rightarrow> request \<Rightarrow> outcome \<times> store" where
  "signup H e db req =
     (case select_users_by_email e db (body_email req) of
        Inl x \<Rightarrow> (Rejected x, db)
      | Inr (existingUser # _) \<Rightarrow> (Responded 400 (user_exists_error (body_email req)), db)
      | Inr [] \<Rightarrow>
          (case hmac_hex H (Some (randomBytes_hex e)) (body_password req) of
             Inl x \<Rightarrow> (Rejected x, db)
           | Inr hashedPassword \<Rightarrow>
               (case insert_user e db (body_name req) (body_email req)
                       hashedPassword (randomBytes_hex e) of
                  Inl x \<Rightarrow> (Rejected x, db)
                | Inr (uid, db') \<Rightarrow>
                    (Responded 201
                       (Json [(''userId'', uid), (''message'', ''User created successfully'')]),
                     db'))))"

definition required_error :: payload where
  "required_error = Json [(''error'', ''Email and password are required'')]"

definition invalid_credentials_error :: payload where
  "invalid_credentials_error =
     Json [(''error'', ''User does not exists with the provided email or password'')]"

definition login ::
  "(string \<Rightarrow> string \<Rightarrow> string) \<Rightarrow> env \<Rightarrow> store \<Rightarrow> request \<Rightarrow> outcome \<times> store" where
  "login H e db req =
     (if falsy (body_email req) \<or> falsy (body_password req)
      then (Responded 400 required_error, db)
      else
        (case select_users_by_email e db (body_email req) of
           Inl x \<Rightarrow> (Rejected x, db)
         | Inr [] \<Rightarrow> (Responded 400 invalid_credentials_error, db)
         | Inr (existingUser # _) \<Rightarrow>
             (case hmac_hex H (user_salt existingUser) (body_password req) of
                Inl x \<Rightarrow> (Rejected x, db)
              | Inr hashedPassword \<Rightarrow>
                  if hashedPassword \<noteq> user_password existingUser
                  then (Responded 400 invalid_credentials_error, db)
                  else
                    (case insert_session e db (user_id existingUser) of
                       Inl x \<Rightarrow> (Rejected x, db)
                     | Inr (session, db') \<Rightarrow>
                         (Responded 200
                            (Json [(''message'', ''Login successfully''),
                                   (''sessionId'', session_id session)]),
                          db')))))"

subsection \<open>index.js: the session middleware and the application\<close>

datatype mw_result = Next request | Ended outcome

definition no_session_error :: payload where
  "no_session_error = Json [(''error'', ''No session ID provided'')]"

definition invalid_session_error :: payload where
  "invalid_session_error = Json [(''error'', ''Invalid session ID'')]"

text \<open>
  \<^verbatim>\<open>app.use('/', async (req, res, next) => ...)\<close>: \<open>Next\<close> is the call of \<^verbatim>\<open>next()\<close>
  with the request as the middleware leaves it; \<open>Ended\<close> is a return without it.
\<close>

definition session_mw :: "env \<Rightarrow> store \<Rightarrow> request \<Rightarrow> mw_result" where
  "session_mw e db req =
     (if falsy (req_session_id req)
      then Ended (Responded 401 no_session_error)
      else
        (case select_session_join_user e db (req_session_id req) of
           Inl x \<Rightarrow> Ended (Rejected x)
         | Inr [] \<Rightarrow> Ended (Responded 401 invalid_session_error)
         | Inr (session # _) \<Rightarrow> Next (req\<lparr>req_user := Some session\<rparr>)))"

text \<open>
  Express matches a path without regard to letter case and lets one slash follow the
  pattern. \<^verbatim>\<open>app.use('/user', ...)\<close> (the pattern \<^verbatim>\<open>^\/user\/?(?=\/|$)\<close>) takes the paths
  whose first piece is \<^verbatim>\<open>user\<close> and hands on the rest of the path, less the one slash
  that may follow the prefix: \<open>mounted ''user'' p\<close> is that rest. \<^verbatim>\<open>router.post('/signup', ...)\<close>
  (the pattern \<^verbatim>\<open>^\/signup\/?$\<close>) takes the paths of the one piece \<^verbatim>\<open>signup\<close>, with or
  without a slash at the end.
\<close>

definition mounted :: "string \<Rightarrow> string list \<Rightarrow> string list option" where
  "mounted name p =
     (case p of
        [] \<Rightarrow> None
      | seg # rest \<Rightarrow>
          if map to_lower seg = name
          then Some (case rest of [] \<Rightarrow> [] | r # rs \<Rightarrow> if r = [] then rs else r # rs)
          else None)"

definition route_matches :: "string \<Rightarrow> string list \<Rightarrow> bool" where
  "route_matches name p =
     (case p of
        [] \<Rightarrow> False
      | seg # rest \<Rightarrow> map to_lower seg = name \<and> (rest = [] \<or> rest = [[]]))"

text \<open>
  \<^verbatim>\<open>app.use('/user', router)\<close>: the router answers POST /signup and POST /login and passes
  every other request on (\<open>None\<close>).
\<close>

definition user_router ::
  "(string \<Rightarrow> string \<Rightarrow> string) \<Rightarrow> env \<Rightarrow> store \<Rightarrow> request \<Rightarrow> (outcome \<times> store) option" where
  "user_router H e db req =
     (case mounted ''user'' (req_path req) of
        None \<Rightarrow> None
      | Some rest \<Rightarrow>
          if req_method req = POST \<and> route_matches ''signup'' rest
          then Some (signup H e db req)
          else if req_method req = POST \<and> route_matches ''login'' rest
          then Some (login H e db req)
          else None)"

text \<open>
  \<^verbatim>\<open>app.get('/', (req, res) => res.send('Hello, World!'))\<close> (the pattern \<^verbatim>\<open>^\/?$\<close>) and the
  end of the stack.
\<close>

definition root_routes :: "request \<Rightarrow> outcome" where
  "root_routes req =
     (if req_method req = GET \<and> (req_path req = [] \<or> req_path req = [[]])
      then Responded 200 (Text ''Hello, World!'')
      else Fallthrough)"

text \<open>The middleware stack in registration order: router, session middleware, GET /.\<close>

definition app ::
  "(string \<Rightarrow> string \<Rightarrow> string) \<Rightarrow> env \<Rightarrow> store \<Rightarrow> request \<Rightarrow> outcome \<times> store" where
  "app H e db req =
     (case user_router H e db req of
        Some r \<Rightarrow> r
      | None \<Rightarrow>
          (case session_mw e db req of
             Ended out \<Rightarrow> (out, db)
           | Next req' \<Rightarrow> (root_routes req', db)))"

subsection \<open>Stores reached later\<close>

text \<open>
  \<open>later H db db'\<close>: the store \<open>db'\<close> is what \<open>db\<close> has become after any number of
  requests to the application, each with its own environment.
\<close>

inductive later :: "(string \<Rightarrow> string \<Rightarrow> string) \<Rightarrow> store \<Rightarrow> store \<Rightarrow> bool"
  for H :: "string \<Rightarrow> string \<Rightarrow> string" where
  later_refl: "later H db db"
| later_step: "later H db db1 \<Longrightarrow> snd (app H e db1 req) = db2 \<Longrightarrow> later H db db2"

subsection \<open>The specification's words, for comparison with the code\<close>

text \<open>
  Case normalisation of an email, as the specification's ``normalized email'' reads:
  the ASCII capital letters are mapped to their small letters. The handlers apply no
  such function to an email; this definition only states the specification.
\<close>

definition spec_normalized_email :: "string \<Rightarrow> string" where
  "spec_normalized_email em = map to_lower em"

text \<open>
  The public identity of a credential as the specification lists it: id, name, email.
\<close>

definition spec_public_identity :: "user_row \<Rightarrow> json_obj" where
  "spec_public_identity u =
     [(''id'', user_id u), (''name'', user_name u), (''email'', user_email u)]"

subsection \<open>Concrete inputs\<close>

text \<open>
  The scenario of the specification (John, john@x.com, secret123), used to run the
  definitions. \<open>example_hmac\<close> stands in for HMAC-SHA256 where a concrete keyed
  function is needed, and \<open>''5a17''\<close> for the 512 hex digits of a salt; the theorems
  hold for every \<open>H\<close> and every salt.
\<close>

abbreviation john_id :: uuid where
  "john_id \<equiv> ''550e8400-e29b-41d4-a716-446655440000''"

abbreviation other_id :: uuid where
  "other_id \<equiv> ''6ba7b810-9dad-41d1-80b4-00c04fd430c8''"

abbreviation john_sid :: uuid where
  "john_sid \<equiv> ''794599f3-d5b5-42ac-9986-2b468e74c30a''"

abbreviation orphan_sid :: uuid where
  "orphan_sid \<equiv> ''16fd2706-8baf-433b-82eb-8c7fada847da''"

abbreviation forged_sid :: uuid where
  "forged_sid \<equiv> ''00000000-0000-4000-8000-000000000000''"

text \<open>The JSON number \<^verbatim>\<open>123\<close>.\<close>

abbreviation json_123 :: jsval where
  "json_123 \<equiv> Other True ''123'' (Some ''123'')"

definition example_hmac :: "string \<Rightarrow> string \<Rightarrow> string" where
  "example_hmac k m = k @ ''/'' @ m"

text \<open>
  A reading of uuids that accepts the canonical form only: eight, four, four, four and
  twelve hexadecimal digits, separated by hyphens.
\<close>

definition example_uuid_in :: "string \<Rightarrow> uuid option" where
  "example_uuid_in t =
     (if map (\<lambda>c. if c \<in> set ''0123456789abcdef'' then CHR ''x'' else c) t
           = ''xxxxxxxx-xxxx-xxxx-xxxx-xxxxxxxxxxxx''
      then Some t else None)"

definition example_env :: "uuid \<Rightarrow> env" where
  "example_env i =
     \<lparr>randomBytes_hex = ''5a17'', gen_random_uuid = i, now = 0,
      select_fault = None, insert_fault = None, uuid_in = example_uuid_in\<rparr>"

definition insert_failing_env :: env where
  "insert_failing_env =
     \<lparr>randomBytes_hex = ''5a17'', gen_random_uuid = john_id, now = 0,
      select_fault = None, insert_fault = Some ''connection terminated unexpectedly'',
      uuid_in = example_uuid_in\<rparr>"

definition select_failing_env :: env where
  "select_failing_env =
     \<lparr>randomBytes_hex = ''5a17'', gen_random_uuid = john_id, now = 0,
      select_fault = Some ''connection refused'', insert_fault = None,
      uuid_in = example_uuid_in\<rparr>"

definition signup_request :: "jsval \<Rightarrow> jsval \<Rightarrow> jsval \<Rightarrow> request" where
  "signup_request n em pw =
     \<lparr>req_method = POST, req_path = [''user'', ''signup''], req_session_id = Undefined,
      body_name = n, body_email = em, body_password = pw, req_user = None\<rparr>"

definition login_request :: "jsval \<Rightarrow> jsval \<Rightarrow> jsval \<Rightarrow> request" where
  "login_request h em pw =
     \<lparr>req_method = POST, req_path = [''user'', ''login''], req_session_id = h,
      body_name = Undefined, body_email = em, body_password = pw, req_user = None\<rparr>"

definition get_request :: "string list \<Rightarrow> jsval \<Rightarrow> request" where
  "get_request p h =
     \<lparr>req_method = GET, req_path = p, req_session_id = h,
      body_name = Undefined, body_email = Undefined, body_password = Undefined,
      req_user = None\<rparr>"

definition empty_store :: store where
  "empty_store = \<lparr>usersTable = [], userSessions = []\<rparr>"

definition john_row :: user_row where
  "john_row =
     \<lparr>user_id = john_id, user_name = ''John'', user_email = ''john@x.com'',
      user_password = ''5a17/secret123'', user_salt = Some ''5a17''\<rparr>"

definition john_session :: session_row where
  "john_session =
     \<lparr>session_id = john_sid, session_userId = Some john_id, session_createdAt = 0\<rparr>"

definition john_store :: store where
  "john_store = \<lparr>usersTable = [john_row], userSessions = []\<rparr>"

definition john_session_store :: store where
  "john_session_store = \<lparr>usersTable = [john_row], userSessions = [john_session]\<rparr>"

text \<open>A store with a session of a user that does not exist and a session of no user.\<close>

definition orphan_session_store :: store where
  "orphan_session_store =
     \<lparr>usersTable = [john_row],
      userSessions =
        [\<lparr>session_id = orphan_sid, session_userId = Some other_id, session_createdAt = 0\<rparr>,
         \<lparr>session_id = forged_sid, session_userId = None, session_createdAt = 0\<rparr>]\<rparr>"

text \<open>The stores that signups with an empty password and with an empty name leave.\<close>

definition eve_store :: store where
  "eve_store =
     \<lparr>usersTable =
        [\<lparr>user_id = other_id, user_name = ''Eve'', user_email = ''eve@x.com'',
          user_password = ''5a17/'', user_salt = Some ''5a17''\<rparr>],
      userSessions = []\<rparr>"

definition anon_store :: store where
  "anon_store =
     \<lparr>usersTable =
        [\<lparr>user_id = other_id, user_name = '''', user_email = ''anon@x.com'',
          user_password = ''5a17/secret123'', user_salt = Some ''5a17''\<rparr>],
      userSessions = []\<rparr>"

text \<open>The stores that signups with John@x.com and then john@x.com leave.\<close>

definition capital_john_store :: store where
  "capital_john_store =
     \<lparr>usersTable =
        [\<lparr>user_id = john_id, user_name = ''John'', user_email = ''John@x.com'',
          user_password = ''5a17/secret123'', user_salt = Some ''5a17''\<rparr>],
      userSessions = []\<rparr>"

definition two_johns_store :: store where
  "two_johns_store =
     \<lparr>usersTable =
        [\<lparr>user_id = john_id, user_name = ''John'', user_email = ''John@x.com'',
          user_password = ''5a17/secret123'', user_salt = Some ''5a17''\<rparr>,
         \<lparr>user_id = other_id, user_name = ''John'', user_email = ''john@x.com'',
          user_password = ''5a17/secret123'', user_salt = Some ''5a17''\<rparr>],
      userSessions = []\<rparr>"

lemmas example_defs = example_hmac_def example_uuid_in_def example_env_def insert_failing_env_def
  select_failing_env_def signup_request_def login_request_def get_request_def
  empty_store_def john_row_def john_session_def john_store_def john_session_store_def
  orphan_session_store_def eve_store_def anon_store_def capital_john_store_def
  two_johns_store_def

lemmas run_defs = signup_def login_def select_users_by_email_def hmac_hex_def insert_user_def
  insert_session_def session_mw_def select_session_join_user_def joined_row_def
  mounted_def route_matches_def to_lower_def user_router_def root_routes_def app_def

section \<open>Properties of the store operations\<close>

lemma select_users_ok:
  "select_fault e = None \<Longrightarrow>
   select_users_by_email e db v = Inr (filter (\<lambda>u. Some (user_email u) = query_param v) (usersTable db))"
  by (simp add: select_users_by_email_def)

lemma select_users_fault:
  "select_fault e = Some d \<Longrightarrow> select_users_by_email e db v = Inl (StoreError d)"
  by (simp add: select_users_by_email_def)

lemma select_users_Inr:
  "select_users_by_email e db v = Inr rows \<Longrightarrow>
   select_fault e = None \<and> rows = filter (\<lambda>u. Some (user_email u) = query_param v) (usersTable db)"
  by (auto simp: select_users_by_email_def split: option.splits)

lemma insert_user_Inr:
  assumes "insert_user e db name email password salt = Inr (uid, db')"
  shows "\<exists>n m. query_param name = Some n \<and> query_param email = Some m
           \<and> insert_fault e = None
           \<and> m \<notin> set (map user_email (usersTable db))
           \<and> gen_random_uuid e \<notin> set (map user_id (usersTable db))
           \<and> uid = gen_random_uuid e
           \<and> db' = db\<lparr>usersTable := usersTable db @
                 [\<lparr>user_id = gen_random_uuid e, user_name = n, user_email = m,
                   user_password = password, user_salt = Some salt\<rparr>]\<rparr>"
  using assms
  by (auto simp: insert_user_def split: option.splits jsval.splits if_splits)

lemma insert_user_Inl:
  "insert_user e db name email password salt = Inl x \<Longrightarrow> \<exists>d. x = StoreError d"
  by (auto simp: insert_user_def split: option.splits jsval.splits if_splits)

lemma insert_session_Inl:
  "insert_session e db uid = Inl x \<Longrightarrow> \<exists>d. x = StoreError d"
  by (auto simp: insert_session_def split: option.splits if_splits)

lemma insert_session_Inr:
  assumes "insert_session e db uid = Inr (s, db')"
  shows "insert_fault e = None \<and> uid \<in> set (map user_id (usersTable db))
       \<and> gen_random_uuid e \<notin> set (map session_id (userSessions db))
       \<and> s = \<lparr>session_id = gen_random_uuid e, session_userId = Some uid,
                 session_createdAt = now e\<rparr>
       \<and> db' = db\<lparr>userSessions := userSessions db @ [s]\<rparr>"
  using assms by (auto simp: insert_session_def split: option.splits if_splits)

lemma insert_session_ok:
  assumes "insert_fault e = None" "uid \<in> set (map user_id (usersTable db))"
       "gen_random_uuid e \<notin> set (map session_id (userSessions db))"
  shows "insert_session e db uid =
     Inr (\<lparr>session_id = gen_random_uuid e, session_userId = Some uid, session_createdAt = now e\<rparr>,
          db\<lparr>userSessions := userSessions db @
            [\<lparr>session_id = gen_random_uuid e, session_userId = Some uid,
              session_createdAt = now e\<rparr>]\<rparr>)"
  using assms by (simp add: insert_session_def)

lemma join_rows_mem:
  assumes "select_session_join_user e db v = Inr rows" and "r \<in> set rows"
  shows "\<exists>s\<in>set (userSessions db). \<exists>u\<in>set (usersTable db). \<exists>t.
        v = Str t \<and> uuid_in e t = Some (session_id s)
        \<and> session_userId s = Some (user_id u) \<and> r = joined_row s u"
proof -
  from assms obtain t i where t: "v = Str t" "uuid_in e t = Some i"
    and "r \<in> set (concat (map (\<lambda>s. map (joined_row s)
                 (filter (\<lambda>u. session_userId s = Some (user_id u)
                               \<and> session_id s = i) (usersTable db)))
               (userSessions db)))"
    by (auto simp: select_session_join_user_def split: option.splits jsval.splits)
  then obtain s u where "s \<in> set (userSessions db)" "u \<in> set (usersTable db)"
      "session_userId s = Some (user_id u)" "session_id s = i" "r = joined_row s u"
    by auto
  with t show ?thesis by blast
qed

lemma join_rows_empty:
  "select_fault e = None \<Longrightarrow> uuid_in e t = Some i \<Longrightarrow>
   \<forall>s\<in>set (userSessions db). \<forall>u\<in>set (usersTable db).
      \<not> (session_userId s = Some (user_id u) \<and> session_id s = i) \<Longrightarrow>
   select_session_join_user e db (Str t) = Inr []"
  by (auto simp: select_session_join_user_def filter_empty_conv)

lemma join_rows_syntax:
  "select_fault e = None \<Longrightarrow> uuid_in e t = None \<Longrightarrow>
   select_session_join_user e db (Str t) = Inl (StoreError invalid_uuid_syntax)"
  by (simp add: select_session_join_user_def)

lemma hmac_hex_Inr:
  "hmac_hex H key data = Inr h \<Longrightarrow> \<exists>k m. key = Some k \<and> data = Str m \<and> h = H k m"
  by (auto simp: hmac_hex_def split: option.splits jsval.splits)

lemma hmac_hex_Inl:
  "hmac_hex H key data = Inl x \<Longrightarrow> x = TypeError"
  by (auto simp: hmac_hex_def split: option.splits jsval.splits)

lemma filter_distinct_key:
  "distinct (map f xs) \<Longrightarrow> x \<in> set xs \<Longrightarrow> filter (\<lambda>y. f y = f x) xs = [x]"
proof (induction xs)
  case Nil
  then show ?case by simp
next
  case (Cons a xs)
  show ?case
  proof (cases "a = x")
    case True
    with Cons.prems have "\<forall>y\<in>set xs. f y \<noteq> f x" by (auto simp: image_iff)
    then have "filter (\<lambda>y. f y = f x) xs = []" by (simp add: filter_empty_conv)
    with True show ?thesis by simp
  next
    case False
    with Cons.prems have "x \<in> set xs" "f a \<noteq> f x" by (auto simp: image_iff)
    with Cons show ?thesis by simp
  qed
qed

text \<open>Only the lookup of a session reads a text as a uuid.\<close>

lemma store_ops_uuid_in_irrelevant:
  "select_users_by_email (e\<lparr>uuid_in := f\<rparr>) db v = select_users_by_email e db v"
  "insert_user (e\<lparr>uuid_in := f\<rparr>) db n m pw salt = insert_user e db n m pw salt"
  "insert_session (e\<lparr>uuid_in := f\<rparr>) db uid = insert_session e db uid"
  by (simp_all add: select_users_by_email_def insert_user_def insert_session_def
      split: option.splits)

section \<open>Properties of the handlers\<close>

subsection \<open>The session middleware\<close>

lemma session_mw_Next:
  assumes "session_mw e db req = Next req'"
  shows "\<exists>row rows. \<not> falsy (req_session_id req) \<and>
           select_session_join_user e db (req_session_id req) = Inr (row # rows) \<and>
           req' = req\<lparr>req_user := Some row\<rparr>"
  using assms by (auto simp: session_mw_def split: if_splits sum.splits list.splits)

lemma session_mw_resolves:
  assumes "session_mw e db req = Next req'"
  shows "\<exists>s\<in>set (userSessions db). \<exists>u\<in>set (usersTable db). \<exists>t.
          req_session_id req = Str t \<and> uuid_in e t = Some (session_id s)
          \<and> session_userId s = Some (user_id u)
          \<and> req' = req\<lparr>req_user := Some (joined_row s u)\<rparr>"
proof -
  from assms obtain row rows where
    r: "select_session_join_user e db (req_session_id req) = Inr (row # rows)"
      "req' = req\<lparr>req_user := Some row\<rparr>"
    using session_mw_Next by blast
  from join_rows_mem[OF r(1), of row] obtain s u t where
    "s \<in> set (userSessions db)" "u \<in> set (usersTable db)"
    "req_session_id req = Str t" "uuid_in e t = Some (session_id s)"
    "session_userId s = Some (user_id u)" "row = joined_row s u"
    by auto
  with r(2) show ?thesis by blast
qed

lemma session_mw_no_match:
  assumes "req_session_id req = Str t" "t \<noteq> []" and "select_fault e = None"
    and "uuid_in e t = Some i"
    and "\<forall>s\<in>set (userSessions db). \<forall>u\<in>set (usersTable db).
           \<not> (session_id s = i \<and> session_userId s = Some (user_id u))"
  shows "session_mw e db req = Ended (Responded 401 invalid_session_error)"
proof -
  from assms(3,4,5) have "select_session_join_user e db (Str t) = Inr []"
    by (intro join_rows_empty) auto
  with assms(1,2) show ?thesis by (simp add: session_mw_def)
qed

lemma session_mw_syntax:
  assumes "req_session_id req = Str t" "t \<noteq> []" and "select_fault e = None"
    and "uuid_in e t = None"
  shows "session_mw e db req = Ended (Rejected (StoreError invalid_uuid_syntax))"
  using assms by (simp add: session_mw_def join_rows_syntax)

lemma session_mw_missing:
  "falsy (req_session_id req) \<Longrightarrow> session_mw e db req = Ended (Responded 401 no_session_error)"
  by (simp add: session_mw_def)

lemma session_mw_Ended:
  "session_mw e db req = Ended out \<Longrightarrow>
     out = Responded 401 no_session_error \<or> out = Responded 401 invalid_session_error
     \<or> (\<exists>d. out = Rejected (StoreError d))"
  by (auto simp: session_mw_def select_session_join_user_def
      split: if_splits sum.splits list.splits option.splits jsval.splits)

subsection \<open>Signup\<close>

lemma signup_201:
  assumes "signup H e db r = (Responded 201 b, db')"
  shows "\<exists>n m p. query_param (body_name r) = Some n \<and> query_param (body_email r) = Some m
           \<and> body_password r = Str p
           \<and> select_fault e = None \<and> insert_fault e = None
           \<and> m \<notin> set (map user_email (usersTable db))
           \<and> gen_random_uuid e \<notin> set (map user_id (usersTable db))
           \<and> b = Json [(''userId'', gen_random_uuid e), (''message'', ''User created successfully'')]
           \<and> db' = db\<lparr>usersTable := usersTable db @
                 [\<lparr>user_id = gen_random_uuid e, user_name = n, user_email = m,
                   user_password = H (randomBytes_hex e) p,
                   user_salt = Some (randomBytes_hex e)\<rparr>]\<rparr>"
proof -
  from assms obtain h uid where
    s: "select_users_by_email e db (body_email r) = Inr []"
    and h: "hmac_hex H (Some (randomBytes_hex e)) (body_password r) = Inr h"
    and i: "insert_user e db (body_name r) (body_email r) h (randomBytes_hex e) = Inr (uid, db')"
    and b: "b = Json [(''userId'', uid), (''message'', ''User created successfully'')]"
    by (auto simp: signup_def split: sum.splits list.splits prod.splits)
  from h obtain p where p: "body_password r = Str p" "h = H (randomBytes_hex e) p"
    by (auto dest: hmac_hex_Inr)
  from s have "select_fault e = None" by (auto dest: select_users_Inr)
  with insert_user_Inr[OF i] p b show ?thesis by auto
qed

lemma signup_store:
  "signup H e db r = (out, db') \<Longrightarrow> (\<exists>b. out = Responded 201 b) \<or> db' = db"
  by (auto simp: signup_def split: sum.splits list.splits prod.splits)

lemma signup_outcomes:
  "signup H e db r = (out, db') \<Longrightarrow>
     (\<exists>b. out = Responded 201 b) \<or> out = Responded 400 (user_exists_error (body_email r))
     \<or> out = Rejected TypeError \<or> (\<exists>d. out = Rejected (StoreError d))"
  by (auto simp: signup_def select_users_by_email_def
      split: sum.splits list.splits prod.splits option.splits
      dest: insert_user_Inl hmac_hex_Inl)

lemma signup_rejected_store:
  "fst (signup H e db req) = Rejected x \<Longrightarrow> snd (signup H e db req) = db"
  using signup_store[of H e db req "fst (signup H e db req)" "snd (signup H e db req)"]
  by (cases "signup H e db req") auto

lemma signup_status:
  "status_of (fst (signup H e db req)) \<in> {None, Some 400, Some 201}"
  using signup_outcomes[of H e db req "fst (signup H e db req)" "snd (signup H e db req)"]
  by auto

lemma signup_header_irrelevant:
  "signup H e db (req\<lparr>req_session_id := h\<rparr>) = signup H e db req"
  by (simp add: signup_def cong: sum.case_cong list.case_cong)

lemma signup_uuid_in_irrelevant:
  "signup H (e\<lparr>uuid_in := f\<rparr>) db req = signup H e db req"
  by (simp add: signup_def store_ops_uuid_in_irrelevant
      cong: sum.case_cong list.case_cong)

lemma signup_missing_field:
  assumes "body_name req = Undefined \<or> body_email req = Undefined \<or> body_password req = Undefined"
  shows "\<not> (\<exists>b db'. signup H e db req = (Responded 201 b, db'))"
proof
  assume "\<exists>b db'. signup H e db req = (Responded 201 b, db')"
  then obtain b db' where "signup H e db req = (Responded 201 b, db')" by blast
  from signup_201[OF this] assms show False by auto
qed

subsection \<open>Login\<close>

lemma login_outcomes:
  "login H e db r = (out, db') \<Longrightarrow>
     (\<exists>b. out = Responded 200 b) \<or> out = Responded 400 required_error
     \<or> out = Responded 400 invalid_credentials_error
     \<or> out = Rejected TypeError \<or> (\<exists>d. out = Rejected (StoreError d))"
  by (auto simp: login_def select_users_by_email_def
      split: sum.splits list.splits prod.splits option.splits if_splits
      dest: insert_session_Inl hmac_hex_Inl)

lemma login_store:
  "login H e db r = (out, db') \<Longrightarrow>
     usersTable db' = usersTable db \<and> ((\<exists>b. out = Responded 200 b) \<or> db' = db)"
  by (auto simp: login_def split: sum.splits list.splits prod.splits if_splits
       dest!: insert_session_Inr)

lemma login_rejected_store:
  "fst (login H e db req) = Rejected x \<Longrightarrow> snd (login H e db req) = db"
  using login_store[of H e db req "fst (login H e db req)" "snd (login H e db req)"]
  by (cases "login H e db req") auto

lemma login_status:
  "status_of (fst (login H e db req)) \<in> {None, Some 400, Some 200}"
  using login_outcomes[of H e db req "fst (login H e db req)" "snd (login H e db req)"]
  by auto

lemma login_header_irrelevant:
  "login H e db (req\<lparr>req_session_id := h\<rparr>) = login H e db req"
  by (simp add: login_def cong: sum.case_cong list.case_cong if_cong)

lemma login_uuid_in_irrelevant:
  "login H (e\<lparr>uuid_in := f\<rparr>) db req = login H e db req"
  by (simp add: login_def store_ops_uuid_in_irrelevant
      cong: sum.case_cong list.case_cong if_cong)

text \<open>A login answered 200 returns the id the store generated, which no session had.\<close>

lemma login_200:
  assumes "login H e db r = (Responded 200 b, db')"
  shows "b = Json [(''message'', ''Login successfully''), (''sessionId'', gen_random_uuid e)]
       \<and> gen_random_uuid e \<notin> set (map session_id (userSessions db))
       \<and> gen_random_uuid e \<in> set (map session_id (userSessions db'))"
  using assms
  by (auto simp: login_def split: sum.splits list.splits prod.splits if_splits
       dest!: insert_session_Inr)

text \<open>Login once the lookup has found a credential.\<close>

lemma login_found:
  assumes "\<not> falsy (body_email r)" "body_password r = Str q" "q \<noteq> []"
      and "select_users_by_email e db (body_email r) = Inr (u # us)"
      and "user_salt u = Some salt"
  shows "login H e db r =
     (if H salt q \<noteq> user_password u then (Responded 400 invalid_credentials_error, db)
      else (case insert_session e db (user_id u) of
              Inl x \<Rightarrow> (Rejected x, db)
            | Inr (session, db') \<Rightarrow>
                (Responded 200 (Json [(''message'', ''Login successfully''),
                                      (''sessionId'', session_id session)]), db')))"
  using assms by (simp add: login_def hmac_hex_def)

subsection \<open>The users table over time\<close>

text \<open>A request adds at most one user, and never one with an email already stored.\<close>

lemma app_store:
  "snd (app H e db r) = db' \<Longrightarrow>
     usersTable db' = usersTable db \<or>
     (\<exists>u. usersTable db' = usersTable db @ [u]
          \<and> user_email u \<notin> set (map user_email (usersTable db)))"
proof (cases "user_router H e db r")
  case None
  assume "snd (app H e db r) = db'"
  with None show ?thesis by (auto simp: app_def split: mw_result.splits)
next
  case (Some res)
  assume a: "snd (app H e db r) = db'"
  with Some have res: "res = (fst res, db')" by (auto simp: app_def)
  from Some have "res = signup H e db r \<or> res = login H e db r"
    by (auto simp: user_router_def split: option.splits if_splits)
  then show ?thesis
  proof
    assume "res = signup H e db r"
    with res have s: "signup H e db r = (fst res, db')" by simp
    from signup_store[OF s] show ?thesis
    proof
      assume "\<exists>b. fst res = Responded 201 b"
      then obtain b where "signup H e db r = (Responded 201 b, db')" using s by auto
      from signup_201[OF this] show ?thesis by auto
    qed auto
  next
    assume "res = login H e db r"
    with res have "login H e db r = (fst res, db')" by simp
    from login_store[OF this] show ?thesis by auto
  qed
qed

lemma later_users:
  assumes "later H db db'" and "em \<in> set (map user_email (usersTable db))"
  shows "filter (\<lambda>u. user_email u = em) (usersTable db')
           = filter (\<lambda>u. user_email u = em) (usersTable db)
       \<and> set (usersTable db) \<subseteq> set (usersTable db')"
  using assms
proof (induction rule: later.induct)
  case (later_refl db)
  then show ?case by simp
next
  case (later_step db db1 e req db2)
  then have ih: "filter (\<lambda>u. user_email u = em) (usersTable db1)
                   = filter (\<lambda>u. user_email u = em) (usersTable db)"
     "set (usersTable db) \<subseteq> set (usersTable db1)" by auto
  with later_step.prems have em1: "em \<in> set (map user_email (usersTable db1))" by auto
  from app_store[OF later_step.hyps(2)] show ?case
  proof
    assume "usersTable db2 = usersTable db1"
    with ih show ?thesis by simp
  next
    assume "\<exists>u. usersTable db2 = usersTable db1 @ [u]
              \<and> user_email u \<notin> set (map user_email (usersTable db1))"
    then obtain u where u: "usersTable db2 = usersTable db1 @ [u]"
        "user_email u \<notin> set (map user_email (usersTable db1))"
      by blast
    with em1 have "user_email u \<noteq> em" by auto
    with u ih show ?thesis by auto
  qed
qed

text \<open>
  After a successful signup, the lookup by that email finds the created row and only
  it, in every later store.
\<close>

lemma signup_then_select:
  assumes reg: "signup H e db req = (Responded 201 b, db1)"
      and em: "body_email req = Str em" and pw: "body_password req = Str p"
      and lat: "later H db1 db2"
  shows "\<exists>n. filter (\<lambda>u. Some (user_email u) = Some em) (usersTable db2) =
            [\<lparr>user_id = gen_random_uuid e, user_name = n, user_email = em,
              user_password = H (randomBytes_hex e) p, user_salt = Some (randomBytes_hex e)\<rparr>]
          \<and> gen_random_uuid e \<in> set (map user_id (usersTable db2))"
proof -
  from signup_201[OF reg] em pw obtain n where
    new: "em \<notin> set (map user_email (usersTable db))"
    and db1: "db1 = db\<lparr>usersTable := usersTable db @
                 [\<lparr>user_id = gen_random_uuid e, user_name = n, user_email = em,
                   user_password = H (randomBytes_hex e) p,
                   user_salt = Some (randomBytes_hex e)\<rparr>]\<rparr>"
    by auto
  let ?u = "\<lparr>user_id = gen_random_uuid e, user_name = n, user_email = em,
                   user_password = H (randomBytes_hex e) p,
                   user_salt = Some (randomBytes_hex e)\<rparr>"
  from new have "filter (\<lambda>u. user_email u = em) (usersTable db) = []"
    by (auto simp: filter_empty_conv)
  with db1 have f1: "filter (\<lambda>u. user_email u = em) (usersTable db1) = [?u]" by simp
  from db1 have mem: "em \<in> set (map user_email (usersTable db1))" "?u \<in> set (usersTable db1)"
    by auto
  from later_users[OF lat mem(1)] f1 mem(2)
  have "filter (\<lambda>u. user_email u = em) (usersTable db2) = [?u]" "?u \<in> set (usersTable db2)"
    by auto
  then have "filter (\<lambda>u. Some (user_email u) = Some em) (usersTable db2) = [?u]"
     "gen_random_uuid e \<in> set (map user_id (usersTable db2))"
    by (auto simp: image_iff intro!: bexI[of _ ?u])
  then show ?thesis by blast
qed

section \<open>The claims\<close>

subsection \<open>C1: register, then log in\<close>

text \<open>
  C1, as stated, fails: signup validates nothing, so it creates a credential for an
  empty password (or an empty email), and login rejects every request whose email or
  password is empty before it looks anything up. Eve signs up with the password \<open>''''\<close>
  and gets 201; her login with the same email and the same password gets 400
  ``Email and password are required''.
\<close>

theorem signup_login_roundtrip_counterexample:
  "signup example_hmac (example_env other_id) empty_store
      (signup_request (Str ''Eve'') (Str ''eve@x.com'') (Str ''''))
     = (Responded 201 (Json [(''userId'', other_id), (''message'', ''User created successfully'')]),
        eve_store)
   \<and> login example_hmac (example_env john_sid) eve_store
      (login_request Undefined (Str ''eve@x.com'') (Str ''''))
     = (Responded 400 (Json [(''error'', ''Email and password are required'')]), eve_store)"
  by (simp add: example_defs run_defs required_error_def)

text \<open>
  C1, amended: for every credential created by a signup (answered 201) with a non-empty
  email and a non-empty password \<open>p\<close>, in every later store, a login with that email whose
  lookup the store completes
  \<^item> with the same password \<open>p\<close> recomputes the hash with the stored salt, matches the
    stored hash and, when the store inserts the session under an id it generates and no
    session has yet, answers 200 with that session id, the session being bound to the
    credential's id;
  \<^item> with any non-empty password whose recomputed hash differs from the stored hash
    answers 400 with the generic invalid-credentials error and leaves the store unchanged;
  \<^item> whenever it is answered 200, carries a session id that no session had before and
    that a session has afterwards.
\<close>

theorem signup_login_roundtrip:
  assumes reg: "signup H e db req = (Responded 201 b, db1)"
      and em: "body_email req = Str em" "em \<noteq> []"
      and pw: "body_password req = Str p" "p \<noteq> []"
      and lat: "later H db1 db2"
      and lg: "body_email req' = Str em" "select_fault e' = None"
  shows "(body_password req' = Str p \<and> insert_fault e' = None
            \<and> gen_random_uuid e' \<notin> set (map session_id (userSessions db2)) \<longrightarrow>
          login H e' db2 req' =
            (Responded 200 (Json [(''message'', ''Login successfully''),
                                  (''sessionId'', gen_random_uuid e')]),
             db2\<lparr>userSessions := userSessions db2 @
                 [\<lparr>session_id = gen_random_uuid e', session_userId = Some (gen_random_uuid e),
                   session_createdAt = now e'\<rparr>]\<rparr>))
       \<and> (\<forall>q. body_password req' = Str q \<and> q \<noteq> []
               \<and> H (randomBytes_hex e) q \<noteq> H (randomBytes_hex e) p \<longrightarrow>
          login H e' db2 req' = (Responded 400 invalid_credentials_error, db2))
       \<and> (\<forall>b' db3. login H e' db2 req' = (Responded 200 b', db3) \<longrightarrow>
          b' = Json [(''message'', ''Login successfully''), (''sessionId'', gen_random_uuid e')]
          \<and> gen_random_uuid e' \<notin> set (map session_id (userSessions db2))
          \<and> gen_random_uuid e' \<in> set (map session_id (userSessions db3)))"
proof -
  from signup_then_select[OF reg em(1) pw(1) lat] obtain n where
    sel: "filter (\<lambda>u. Some (user_email u) = Some em) (usersTable db2) =
            [\<lparr>user_id = gen_random_uuid e, user_name = n, user_email = em,
              user_password = H (randomBytes_hex e) p, user_salt = Some (randomBytes_hex e)\<rparr>]"
    and uid: "gen_random_uuid e \<in> set (map user_id (usersTable db2))"
    by blast
  let ?u = "\<lparr>user_id = gen_random_uuid e, user_name = n, user_email = em,
              user_password = H (randomBytes_hex e) p, user_salt = Some (randomBytes_hex e)\<rparr>"
  from sel lg have s: "select_users_by_email e' db2 (body_email req') = Inr (?u # [])"
    by (simp add: select_users_ok)
  from lg em have ne: "\<not> falsy (body_email req')" by simp
  have found: "\<And>q. body_password req' = Str q \<Longrightarrow> q \<noteq> [] \<Longrightarrow>
     login H e' db2 req' =
     (if H (randomBytes_hex e) q \<noteq> user_password ?u
      then (Responded 400 invalid_credentials_error, db2)
      else (case insert_session e' db2 (user_id ?u) of
              Inl x \<Rightarrow> (Rejected x, db2)
            | Inr (session, db') \<Rightarrow>
                (Responded 200 (Json [(''message'', ''Login successfully''),
                                      (''sessionId'', session_id session)]), db')))"
    by (rule login_found[OF ne _ _ s]) simp_all
  show ?thesis
  proof (intro conjI impI allI)
    assume a: "body_password req' = Str p \<and> insert_fault e' = None
            \<and> gen_random_uuid e' \<notin> set (map session_id (userSessions db2))"
    with uid have "insert_session e' db2 (gen_random_uuid e) =
        Inr (\<lparr>session_id = gen_random_uuid e', session_userId = Some (gen_random_uuid e),
               session_createdAt = now e'\<rparr>,
          db2\<lparr>userSessions := userSessions db2 @
            [\<lparr>session_id = gen_random_uuid e', session_userId = Some (gen_random_uuid e),
              session_createdAt = now e'\<rparr>]\<rparr>)"
      by (intro insert_session_ok) auto
    with found[of p] a pw show "login H e' db2 req' =
            (Responded 200 (Json [(''message'', ''Login successfully''),
                                  (''sessionId'', gen_random_uuid e')]),
             db2\<lparr>userSessions := userSessions db2 @
                 [\<lparr>session_id = gen_random_uuid e', session_userId = Some (gen_random_uuid e),
                   session_createdAt = now e'\<rparr>]\<rparr>)"
      by simp
  next
    fix q
    assume "body_password req' = Str q \<and> q \<noteq> []
               \<and> H (randomBytes_hex e) q \<noteq> H (randomBytes_hex e) p"
    with found[of q] show "login H e' db2 req' = (Responded 400 invalid_credentials_error, db2)"
      by simp
  next
    fix b' db3
    assume "login H e' db2 req' = (Responded 200 b', db3)"
    from login_200[OF this]
    show "b' = Json [(''message'', ''Login successfully''), (''sessionId'', gen_random_uuid e')]"
      and "gen_random_uuid e' \<notin> set (map session_id (userSessions db2))"
      and "gen_random_uuid e' \<in> set (map session_id (userSessions db3))"
      by simp_all
  qed
qed

text \<open>
  The scenario of the specification: John signs up, logs in with secret123 and gets a
  session id; a login with another password gets the generic error.
\<close>

theorem signup_login_roundtrip_witness:
  "signup example_hmac (example_env john_id) empty_store
      (signup_request (Str ''John'') (Str ''john@x.com'') (Str ''secret123''))
     = (Responded 201 (Json [(''userId'', john_id), (''message'', ''User created successfully'')]),
        john_store)
   \<and> login example_hmac (example_env john_sid) john_store
      (login_request Undefined (Str ''john@x.com'') (Str ''secret123''))
     = (Responded 200 (Json [(''message'', ''Login successfully''), (''sessionId'', john_sid)]),
        john_session_store)
   \<and> login example_hmac (example_env john_sid) john_store
      (login_request Undefined (Str ''john@x.com'') (Str ''letmein''))
     = (Responded 400 invalid_credentials_error, john_store)
   \<and> john_sid \<notin> set (map session_id (userSessions john_store))
   \<and> john_sid \<in> set (map session_id (userSessions john_session_store))"
proof -
  have reg: "signup example_hmac (example_env john_id) empty_store
      (signup_request (Str ''John'') (Str ''john@x.com'') (Str ''secret123''))
     = (Responded 201 (Json [(''userId'', john_id), (''message'', ''User created successfully'')]),
        john_store)"
    by (simp add: example_defs run_defs)
  have em: "body_email (signup_request (Str ''John'') (Str ''john@x.com'') (Str ''secret123''))
              = Str ''john@x.com''"
     "''john@x.com'' \<noteq> []"
    and pw: "body_password (signup_request (Str ''John'') (Str ''john@x.com'') (Str ''secret123''))
              = Str ''secret123''"
     "''secret123'' \<noteq> []"
    by (simp_all add: example_defs)
  have ok: "select_fault (example_env john_sid) = None" by (simp add: example_defs)
  have right: "body_email (login_request Undefined (Str ''john@x.com'') (Str ''secret123''))
                 = Str ''john@x.com''"
    and wrong: "body_email (login_request Undefined (Str ''john@x.com'') (Str ''letmein''))
                 = Str ''john@x.com''"
    by (simp_all add: example_defs)
  note same = signup_login_roundtrip [OF reg em pw later_refl right ok]
  note other = signup_login_roundtrip [OF reg em pw later_refl wrong ok]
  from same [THEN conjunct1]
  have l200: "login example_hmac (example_env john_sid) john_store
      (login_request Undefined (Str ''john@x.com'') (Str ''secret123''))
     = (Responded 200 (Json [(''message'', ''Login successfully''), (''sessionId'', john_sid)]),
        john_session_store)"
    by (simp add: example_defs)
  from other [THEN conjunct2, THEN conjunct1]
  have l400: "login example_hmac (example_env john_sid) john_store
      (login_request Undefined (Str ''john@x.com'') (Str ''letmein''))
     = (Responded 400 invalid_credentials_error, john_store)"
    by (simp add: example_defs)
  from same [THEN conjunct2, THEN conjunct2, rule_format, OF l200]
  have fresh: "john_sid \<notin> set (map session_id (userSessions john_store))
     \<and> john_sid \<in> set (map session_id (userSessions john_session_store))"
    by (simp add: example_defs)
  from reg l200 l400 fresh show ?thesis by simp
qed

subsection \<open>C2: the two login failures look the same\<close>

text \<open>
  What the code achieves: for requests whose email and password are non-empty strings,
  a login with an email that no stored credential has and a login with the email of a
  stored credential but a password whose recomputed hash differs get the same answer,
  status 400 and the one generic payload, and neither changes the store.
\<close>

lemma login_string_failures_same:
  assumes given1: "body_email r1 = Str m1" "m1 \<noteq> []" "body_password r1 = Str q1" "q1 \<noteq> []"
      and given2: "body_email r2 = Str m2" "m2 \<noteq> []" "body_password r2 = Str q" "q \<noteq> []"
      and ok: "select_fault e1 = None" "select_fault e2 = None"
      and unknown: "\<forall>u\<in>set (usersTable db1). user_email u \<noteq> m1"
      and uniq: "distinct (map user_email (usersTable db2))"
      and known: "u \<in> set (usersTable db2)" "user_email u = m2"
      and wrong: "user_salt u = Some salt" "H salt q \<noteq> user_password u"
  shows "login H e1 db1 r1 = (Responded 400 invalid_credentials_error, db1)
       \<and> login H e2 db2 r2 = (Responded 400 invalid_credentials_error, db2)"
proof -
  from unknown have "filter (\<lambda>u. user_email u = m1) (usersTable db1) = []"
    by (auto simp: filter_empty_conv)
  with ok given1 have "select_users_by_email e1 db1 (body_email r1) = Inr []"
    by (simp add: select_users_ok)
  with given1 have l1: "login H e1 db1 r1 = (Responded 400 invalid_credentials_error, db1)"
    by (simp add: login_def)
  have "filter (\<lambda>y. user_email y = user_email u) (usersTable db2) = [u]"
    using filter_distinct_key[OF uniq known(1)] by simp
  with ok given2 known(2)
  have sel: "select_users_by_email e2 db2 (body_email r2) = Inr (u # [])"
    by (simp add: select_users_ok)
  from given2 have ne: "\<not> falsy (body_email r2)" by simp
  from login_found[OF ne given2(3) given2(4) sel wrong(1)] wrong(2)
  have l2: "login H e2 db2 r2 = (Responded 400 invalid_credentials_error, db2)"
    by simp
  from l1 l2 show ?thesis by simp
qed

text \<open>
  C2 is what the code sets out to do (both branches return the same message, and the
  README says so, to prevent the enumeration of emails), and the code misses a case:
  a password that is truthy and not a string, such as the JSON number \<^verbatim>\<open>123\<close>, passes
  the required-fields check. With an email that matches no credential the request is
  answered 400 with the generic error; with John's email the handler goes on to
  \<^verbatim>\<open>update(password)\<close>, which throws, and no response is sent. Both are failing logins,
  one of each kind, and the caller tells them apart.
\<close>

theorem login_failures_distinguishable:
  "login example_hmac (example_env john_sid) john_store
      (login_request Undefined (Str ''nobody@x.com'') json_123)
     = (Responded 400
          (Json [(''error'', ''User does not exists with the provided email or password'')]),
        john_store)
   \<and> login example_hmac (example_env john_sid) john_store
      (login_request Undefined (Str ''john@x.com'') json_123)
     = (Rejected TypeError, john_store)
   \<and> status_of (Responded 400
          (Json [(''error'', ''User does not exists with the provided email or password'')]))
     = Some 400
   \<and> status_of (Rejected TypeError) = None"
  by (simp add: example_defs run_defs invalid_credentials_error_def)

subsection \<open>C3: signup with a missing or empty field\<close>

text \<open>
  C3, as stated, fails: signup checks none of its fields. With an empty display name
  (and an unused email) it answers 201 and stores the credential; with no password at
  all the hashing throws, which is an uncaught exception and not a 400 response.
\<close>

theorem signup_validation_counterexample:
  "signup example_hmac (example_env other_id) empty_store
      (signup_request (Str '''') (Str ''anon@x.com'') (Str ''secret123''))
     = (Responded 201 (Json [(''userId'', other_id), (''message'', ''User created successfully'')]),
        anon_store)
   \<and> usersTable anon_store \<noteq> usersTable empty_store
   \<and> signup example_hmac (example_env john_id) empty_store
      (signup_request (Str ''John'') (Str ''john@x.com'') Undefined)
     = (Rejected TypeError, empty_store)"
  by (simp add: example_defs run_defs)

text \<open>
  C3, amended: for every signup request in which display name, email or password is
  missing (undefined), no credential record is created and the store is unchanged; the
  request is not answered with a validation error of its own: it ends with an uncaught
  exception (of the hashing, or of the store) or with the duplicate-email 400 when the
  email is already registered. (Nothing is said of fields that are present and empty.)
\<close>

theorem signup_missing_field_creates_nothing:
  assumes "body_name req = Undefined \<or> body_email req = Undefined \<or> body_password req = Undefined"
  shows "snd (signup H e db req) = db
       \<and> (fst (signup H e db req) = Rejected TypeError
          \<or> (\<exists>d. fst (signup H e db req) = Rejected (StoreError d))
          \<or> fst (signup H e db req) = Responded 400 (user_exists_error (body_email req)))"
proof -
  obtain out db' where s: "signup H e db req = (out, db')" by (cases "signup H e db req")
  from signup_missing_field[OF assms, of H e db] s have no: "\<And>b. out \<noteq> Responded 201 b" by auto
  with signup_store[OF s] signup_outcomes[OF s] s show ?thesis by auto
qed

theorem signup_missing_field_creates_nothing_witness:
  "body_password (signup_request (Str ''John'') (Str ''john@x.com'') Undefined) = Undefined
   \<and> signup example_hmac (example_env john_id) empty_store
        (signup_request (Str ''John'') (Str ''john@x.com'') Undefined)
      = (Rejected TypeError, empty_store)
   \<and> signup example_hmac (example_env john_id) empty_store
        (signup_request Undefined (Str ''john@x.com'') (Str ''secret123''))
      = (Rejected (StoreError not_null_violation), empty_store)
   \<and> signup example_hmac (example_env other_id) john_store
        (signup_request Undefined (Str ''john@x.com'') (Str ''secret123''))
      = (Responded 400 (Json [(''error'', ''User with email john@x.com already exists'')]),
         john_store)"
  using
    signup_missing_field_creates_nothing [of
      "signup_request (Str ''John'') (Str ''john@x.com'') Undefined"
      example_hmac "example_env john_id" empty_store]
    signup_missing_field_creates_nothing [of
      "signup_request Undefined (Str ''john@x.com'') (Str ''secret123'')"
      example_hmac "example_env john_id" empty_store]
    signup_missing_field_creates_nothing [of
      "signup_request Undefined (Str ''john@x.com'') (Str ''secret123'')"
      example_hmac "example_env other_id" john_store]
  by (simp add: example_defs run_defs user_exists_error_def)

subsection \<open>C4: registering the same email twice\<close>

text \<open>
  C4, as stated, fails: the lookup compares the email as it was sent, and nothing in the
  code normalises its case. John@x.com and john@x.com are equal after case
  normalisation, both signups are answered 201, and two credential records exist
  afterwards.
\<close>

theorem duplicate_signup_counterexample:
  "spec_normalized_email ''John@x.com'' = spec_normalized_email ''john@x.com''
   \<and> signup example_hmac (example_env john_id) empty_store
        (signup_request (Str ''John'') (Str ''John@x.com'') (Str ''secret123''))
      = (Responded 201 (Json [(''userId'', john_id), (''message'', ''User created successfully'')]),
         capital_john_store)
   \<and> signup example_hmac (example_env other_id) capital_john_store
        (signup_request (Str ''John'') (Str ''john@x.com'') (Str ''secret123''))
      = (Responded 201 (Json [(''userId'', other_id), (''message'', ''User created successfully'')]),
         two_johns_store)
   \<and> length (usersTable two_johns_store) = 2"
  by (simp add: example_defs run_defs spec_normalized_email_def)

text \<open>
  C4, amended: for every two signup requests with the same email, character for
  character, the first answered 201: the second, in every later store and whenever the
  store completes its lookup, is answered 400 with the duplicate-email error and leaves
  the store unchanged, and exactly one credential record with that email exists.
\<close>

theorem duplicate_signup_rejected:
  assumes reg: "signup H e db req = (Responded 201 b, db1)"
      and em: "body_email req = Str em"
      and lat: "later H db1 db2"
      and again: "body_email req' = Str em" "select_fault e' = None"
  shows "signup H e' db2 req' = (Responded 400 (user_exists_error (Str em)), db2)
       \<and> length (filter (\<lambda>u. user_email u = em) (usersTable db2)) = 1"
proof -
  from signup_201[OF reg] obtain p where pw: "body_password req = Str p" by blast
  from signup_then_select[OF reg em pw lat] obtain u where
    sel: "filter (\<lambda>u. Some (user_email u) = Some em) (usersTable db2) = [u]"
    by blast
  with again have "select_users_by_email e' db2 (body_email req') = Inr [u]"
    by (simp add: select_users_ok)
  with again have "signup H e' db2 req' = (Responded 400 (user_exists_error (Str em)), db2)"
    by (simp add: signup_def)
  moreover from sel have "length (filter (\<lambda>u. user_email u = em) (usersTable db2)) = 1"
    by simp
  ultimately show ?thesis by simp
qed

theorem duplicate_signup_rejected_witness:
  "signup example_hmac (example_env john_id) empty_store
      (signup_request (Str ''John'') (Str ''john@x.com'') (Str ''secret123''))
     = (Responded 201 (Json [(''userId'', john_id), (''message'', ''User created successfully'')]),
        john_store)
   \<and> snd (app example_hmac (example_env john_sid) john_store
           (login_request Undefined (Str ''john@x.com'') (Str ''secret123'')))
     = john_session_store
   \<and> signup example_hmac (example_env other_id) john_session_store
      (signup_request (Str ''Johnny'') (Str ''john@x.com'') (Str ''other''))
     = (Responded 400 (Json [(''error'', ''User with email john@x.com already exists'')]),
        john_session_store)
   \<and> length (filter (\<lambda>u. user_email u = ''john@x.com'') (usersTable john_session_store)) = 1"
proof -
  have reg: "signup example_hmac (example_env john_id) empty_store
      (signup_request (Str ''John'') (Str ''john@x.com'') (Str ''secret123''))
     = (Responded 201 (Json [(''userId'', john_id), (''message'', ''User created successfully'')]),
        john_store)"
    by (simp add: example_defs run_defs)
  have step: "snd (app example_hmac (example_env john_sid) john_store
           (login_request Undefined (Str ''john@x.com'') (Str ''secret123'')))
     = john_session_store"
    by (simp add: example_defs run_defs)
  have lat: "later example_hmac john_store john_session_store"
    by (rule later_step [OF later_refl step])
  have em: "body_email (signup_request (Str ''John'') (Str ''john@x.com'') (Str ''secret123''))
              = Str ''john@x.com''"
    and again: "body_email (signup_request (Str ''Johnny'') (Str ''john@x.com'') (Str ''other''))
              = Str ''john@x.com''"
    and ok: "select_fault (example_env other_id) = None"
    by (simp_all add: example_defs)
  from duplicate_signup_rejected [OF reg em lat again ok] reg step
  show ?thesis by (simp add: user_exists_error_def)
qed

subsection \<open>C5: a missing or unknown session id\<close>

text \<open>
  C5, as stated, fails: the token is compared with a column of type uuid, and the
  middleware catches nothing. The token \<open>''not-a-real-id''\<close> of the specification's
  scenario matches no session, yet the request is not answered 401: the store rejects
  the lookup (``invalid input syntax for type uuid''), the error leaves the middleware
  as an uncaught exception and no response is sent.
\<close>

theorem session_validation_errors_counterexample:
  "''not-a-real-id'' \<notin> set (map session_id (userSessions john_session_store))
   \<and> session_mw (example_env other_id) john_session_store
        (get_request [] (Str ''not-a-real-id''))
      = Ended (Rejected (StoreError ''invalid input syntax for type uuid''))
   \<and> status_of (Rejected (StoreError ''invalid input syntax for type uuid'')) = None"
  by (simp add: example_defs run_defs invalid_uuid_syntax_def)

text \<open>
  C5, amended: in the session middleware, a request without a session-id token (the
  header absent or empty) is answered 401 ``No session ID provided''; a request whose
  token is uuid syntax and matches no session joined with its owning credential is
  answered 401 ``Invalid session ID'' whenever the store completes the lookup; a token
  that is not uuid syntax is rejected by the store, whose error leaves the middleware
  uncaught. In all these cases \<^verbatim>\<open>next()\<close> is not called: the outcome of the application
  is the middleware's and the store is unchanged.
\<close>

theorem session_validation_errors:
  "(falsy (req_session_id req) \<longrightarrow>
      session_mw e db req = Ended (Responded 401 no_session_error))
   \<and> (req_session_id req = Str t \<and> t \<noteq> [] \<and> select_fault e = None
        \<and> uuid_in e t = Some i
        \<and> (\<forall>s\<in>set (userSessions db). \<forall>u\<in>set (usersTable db).
              \<not> (session_id s = i \<and> session_userId s = Some (user_id u))) \<longrightarrow>
      session_mw e db req = Ended (Responded 401 invalid_session_error))
   \<and> (req_session_id req = Str t \<and> t \<noteq> [] \<and> select_fault e = None
        \<and> uuid_in e t = None \<longrightarrow>
      session_mw e db req = Ended (Rejected (StoreError invalid_uuid_syntax)))
   \<and> (session_mw e db req = Ended out \<and> user_router H e db req = None \<longrightarrow>
      app H e db req = (out, db))"
proof (intro conjI impI)
  assume "falsy (req_session_id req)"
  then show "session_mw e db req = Ended (Responded 401 no_session_error)"
    by (rule session_mw_missing)
next
  assume "req_session_id req = Str t \<and> t \<noteq> [] \<and> select_fault e = None
        \<and> uuid_in e t = Some i
        \<and> (\<forall>s\<in>set (userSessions db). \<forall>u\<in>set (usersTable db).
              \<not> (session_id s = i \<and> session_userId s = Some (user_id u)))"
  then show "session_mw e db req = Ended (Responded 401 invalid_session_error)"
    by (intro session_mw_no_match[of req t e i db]) auto
next
  assume "req_session_id req = Str t \<and> t \<noteq> [] \<and> select_fault e = None
        \<and> uuid_in e t = None"
  then show "session_mw e db req = Ended (Rejected (StoreError invalid_uuid_syntax))"
    by (intro session_mw_syntax[of req t e db]) auto
next
  assume "session_mw e db req = Ended out \<and> user_router H e db req = None"
  then show "app H e db req = (out, db)"
    by (simp add: app_def)
qed

theorem session_validation_errors_witness:
  "session_mw (example_env other_id) john_session_store (get_request [] Undefined)
     = Ended (Responded 401 no_session_error)
   \<and> session_mw (example_env other_id) john_session_store (get_request [] (Str forged_sid))
     = Ended (Responded 401 invalid_session_error)
   \<and> session_mw (example_env other_id) john_session_store
        (get_request [] (Str ''not-a-real-id''))
     = Ended (Rejected (StoreError invalid_uuid_syntax))
   \<and> app example_hmac (example_env other_id) john_session_store
        (get_request [] (Str forged_sid))
     = (Responded 401 invalid_session_error, john_session_store)"
  using
    session_validation_errors [of "get_request [] Undefined"
      "example_env other_id" john_session_store "[]" forged_sid
      "Responded 401 no_session_error" example_hmac]
    session_validation_errors [of "get_request [] (Str forged_sid)"
      "example_env other_id" john_session_store forged_sid forged_sid
      "Responded 401 invalid_session_error" example_hmac]
    session_validation_errors [of "get_request [] (Str ''not-a-real-id'')"
      "example_env other_id" john_session_store "''not-a-real-id''" forged_sid
      "Rejected (StoreError invalid_uuid_syntax)" example_hmac]
  by (simp add: example_defs user_router_def mounted_def)

subsection \<open>C6: a valid session has a credential\<close>

text \<open>
  C6: whenever the session middleware lets a request through, the store holds a session
  whose id the token denotes and a credential with the id that session references, and
  the identity attached is the row joined from the two. A session with no matching
  credential is never returned as valid, and a token that denotes the id of no stored
  session never resolves.
\<close>

theorem session_credential_integrity:
  "(session_mw e db req = Next req' \<longrightarrow>
      (\<exists>s\<in>set (userSessions db). \<exists>u\<in>set (usersTable db). \<exists>t.
          req_session_id req = Str t \<and> uuid_in e t = Some (session_id s)
          \<and> session_userId s = Some (user_id u)
          \<and> req' = req\<lparr>req_user := Some (joined_row s u)\<rparr>))
   \<and> ((\<forall>s\<in>set (userSessions db).
          (\<exists>t. req_session_id req = Str t \<and> uuid_in e t = Some (session_id s)) \<longrightarrow>
          (\<forall>u\<in>set (usersTable db). session_userId s \<noteq> Some (user_id u))) \<longrightarrow>
        (\<forall>r. session_mw e db req \<noteq> Next r))
   \<and> ((\<forall>s\<in>set (userSessions db). \<forall>t.
          req_session_id req = Str t \<longrightarrow> uuid_in e t \<noteq> Some (session_id s)) \<longrightarrow>
        (\<forall>r. session_mw e db req \<noteq> Next r))"
proof (intro conjI impI allI)
  assume "session_mw e db req = Next req'"
  then show "\<exists>s\<in>set (userSessions db). \<exists>u\<in>set (usersTable db). \<exists>t.
          req_session_id req = Str t \<and> uuid_in e t = Some (session_id s)
          \<and> session_userId s = Some (user_id u)
          \<and> req' = req\<lparr>req_user := Some (joined_row s u)\<rparr>"
    by (rule session_mw_resolves)
next
  fix r
  assume a: "\<forall>s\<in>set (userSessions db).
          (\<exists>t. req_session_id req = Str t \<and> uuid_in e t = Some (session_id s)) \<longrightarrow>
          (\<forall>u\<in>set (usersTable db). session_userId s \<noteq> Some (user_id u))"
  show "session_mw e db req \<noteq> Next r"
  proof
    assume "session_mw e db req = Next r"
    from session_mw_resolves[OF this] a show False by blast
  qed
next
  fix r
  assume a: "\<forall>s\<in>set (userSessions db). \<forall>t.
          req_session_id req = Str t \<longrightarrow> uuid_in e t \<noteq> Some (session_id s)"
  show "session_mw e db req \<noteq> Next r"
  proof
    assume "session_mw e db req = Next r"
    from session_mw_resolves[OF this] a show False by blast
  qed
qed

text \<open>
  John's session resolves to John; the session of a user that does not exist, the
  session of no user and an id that no session has do not resolve.
\<close>

theorem session_credential_integrity_witness:
  "session_mw (example_env other_id) john_session_store (get_request [] (Str john_sid))
     = Next (get_request [] (Str john_sid)\<lparr>req_user := Some (joined_row john_session john_row)\<rparr>)
   \<and> john_session \<in> set (userSessions john_session_store)
   \<and> john_row \<in> set (usersTable john_session_store)
   \<and> session_userId john_session = Some (user_id john_row)
   \<and> session_mw (example_env other_id) orphan_session_store (get_request [] (Str orphan_sid))
     = Ended (Responded 401 invalid_session_error)
   \<and> session_mw (example_env other_id) orphan_session_store (get_request [] (Str forged_sid))
     = Ended (Responded 401 invalid_session_error)
   \<and> session_mw (example_env other_id) john_session_store (get_request [] (Str forged_sid))
     = Ended (Responded 401 invalid_session_error)"
  using
    session_credential_integrity [of "example_env other_id" john_session_store
      "get_request [] (Str john_sid)"
      "get_request [] (Str john_sid)\<lparr>req_user := Some (joined_row john_session john_row)\<rparr>"]
    session_credential_integrity [of "example_env other_id" orphan_session_store
      "get_request [] (Str orphan_sid)" "get_request [] (Str orphan_sid)"]
    session_credential_integrity [of "example_env other_id" orphan_session_store
      "get_request [] (Str forged_sid)" "get_request [] (Str forged_sid)"]
    session_credential_integrity [of "example_env other_id" john_session_store
      "get_request [] (Str forged_sid)" "get_request [] (Str forged_sid)"]
  by (simp add: example_defs session_mw_def select_session_join_user_def joined_row_def)

subsection \<open>C7: the identity attached to the request\<close>

text \<open>
  C7, as stated, fails: the object attached as \<^verbatim>\<open>req.user\<close> is the joined row the
  middleware selects, with four fields, and its \<open>id\<close> is the id of the session; the id
  of the credential is the field \<open>userId\<close>. For John's session the attached object is
  not the public identity (id, name, email) of John's credential, and its \<open>id\<close> is not
  John's id.
\<close>

theorem attached_identity_counterexample:
  "session_mw (example_env other_id) john_session_store (get_request [] (Str john_sid))
     = Next (get_request [] (Str john_sid)
              \<lparr>req_user := Some [(''id'', john_sid), (''userId'', john_id),
                                 (''name'', ''John''), (''email'', ''john@x.com'')]\<rparr>)
   \<and> spec_public_identity john_row
     = [(''id'', john_id), (''name'', ''John''), (''email'', ''john@x.com'')]
   \<and> [(''id'', john_sid), (''userId'', john_id), (''name'', ''John''),
       (''email'', ''john@x.com'')]
     \<noteq> spec_public_identity john_row
   \<and> map_of [(''id'', john_sid), (''userId'', john_id), (''name'', ''John''),
              (''email'', ''john@x.com'')] ''id'' \<noteq> Some (user_id john_row)"
  by (simp add: example_defs run_defs spec_public_identity_def)

text \<open>
  C7, amended: for every request whose token resolves, the identity attached to the
  request is the session's id (field \<open>id\<close>) together with the resolved credential's id
  (field \<open>userId\<close>), name and email, in a session and a credential of the store that the
  token and the reference relate; it has no field for the password hash or the salt,
  and nothing else of the request changes.
\<close>

theorem attached_identity:
  assumes "session_mw e db req = Next req'"
  shows "\<exists>s\<in>set (userSessions db). \<exists>u\<in>set (usersTable db). \<exists>t.
           req_session_id req = Str t \<and> uuid_in e t = Some (session_id s)
           \<and> session_userId s = Some (user_id u)
           \<and> req_user req' =
               Some [(''id'', session_id s), (''userId'', user_id u),
                     (''name'', user_name u), (''email'', user_email u)]
           \<and> ''password'' \<notin> set (map fst (joined_row s u))
           \<and> ''salt'' \<notin> set (map fst (joined_row s u))
           \<and> req' = req\<lparr>req_user := Some (joined_row s u)\<rparr>"
proof -
  from session_mw_resolves[OF assms] obtain s u t where
    "s \<in> set (userSessions db)" "u \<in> set (usersTable db)"
    "req_session_id req = Str t" "uuid_in e t = Some (session_id s)"
    "session_userId s = Some (user_id u)"
    "req' = req\<lparr>req_user := Some (joined_row s u)\<rparr>"
    by blast
  then show ?thesis
    by (intro bexI[of _ s] bexI[of _ u] exI[of _ t]) (simp_all add: joined_row_def)
qed

theorem attached_identity_witness:
  "session_mw (example_env other_id) john_session_store (get_request [] (Str john_sid))
     = Next (get_request [] (Str john_sid)
              \<lparr>req_user := Some [(''id'', john_sid), (''userId'', john_id),
                                 (''name'', ''John''), (''email'', ''john@x.com'')]\<rparr>)"
  using attached_identity [of "example_env other_id" john_session_store
      "get_request [] (Str john_sid)"
      "get_request [] (Str john_sid)
              \<lparr>req_user := Some [(''id'', john_sid), (''userId'', john_id),
                                 (''name'', ''John''), (''email'', ''john@x.com'')]\<rparr>"]
  by (simp add: example_defs run_defs)

subsection \<open>C8: a failing store\<close>

text \<open>
  C8, as stated, fails: neither handler catches anything and no handler ever answers
  500. When the store fails the insert of a signup or of a login, the store's error
  leaves the handler as an uncaught exception, and the handler has sent no response.
\<close>

theorem store_failure_counterexample:
  "signup example_hmac insert_failing_env empty_store
      (signup_request (Str ''John'') (Str ''john@x.com'') (Str ''secret123''))
     = (Rejected (StoreError ''connection terminated unexpectedly''), empty_store)
   \<and> status_of (Rejected (StoreError ''connection terminated unexpectedly'')) = None
   \<and> login example_hmac insert_failing_env john_store
      (login_request Undefined (Str ''john@x.com'') (Str ''secret123''))
     = (Rejected (StoreError ''connection terminated unexpectedly''), john_store)"
  by (simp add: example_defs run_defs)

text \<open>
  C8, amended: for every signup or login request during which a store operation fails
  (the lookup, or the insert once the handler reaches it), the handler sends no
  response: the store's error leaves it as an uncaught exception; whenever a handler
  ends with an exception the store is unchanged, so no partial credential or session
  record is left behind; and neither handler ever answers with status 500.
\<close>

theorem store_failure_propagates:
  "(select_fault e = Some d \<longrightarrow> signup H e db req = (Rejected (StoreError d), db))
   \<and> (select_fault e = Some d \<and> \<not> falsy (body_email req) \<and> \<not> falsy (body_password req) \<longrightarrow>
        login H e db req = (Rejected (StoreError d), db))
   \<and> (insert_fault e = Some d \<and> select_users_by_email e db (body_email req) = Inr []
        \<and> body_password req = Str p \<longrightarrow>
        signup H e db req = (Rejected (StoreError d), db))
   \<and> (insert_fault e = Some d \<and> \<not> falsy (body_email req) \<and> \<not> falsy (body_password req)
        \<and> select_users_by_email e db (body_email req) = Inr (u # us)
        \<and> hmac_hex H (user_salt u) (body_password req) = Inr (user_password u) \<longrightarrow>
        login H e db req = (Rejected (StoreError d), db))
   \<and> (fst (signup H e db req) = Rejected x \<longrightarrow> snd (signup H e db req) = db)
   \<and> (fst (login H e db req) = Rejected x \<longrightarrow> snd (login H e db req) = db)
   \<and> status_of (fst (signup H e db req)) \<noteq> Some 500
   \<and> status_of (fst (login H e db req)) \<noteq> Some 500"
proof (intro conjI impI)
  assume "select_fault e = Some d"
  then show "signup H e db req = (Rejected (StoreError d), db)"
    by (simp add: signup_def select_users_fault)
next
  assume "select_fault e = Some d \<and> \<not> falsy (body_email req) \<and> \<not> falsy (body_password req)"
  then show "login H e db req = (Rejected (StoreError d), db)"
    by (simp add: login_def select_users_fault)
next
  assume "insert_fault e = Some d \<and> select_users_by_email e db (body_email req) = Inr []
        \<and> body_password req = Str p"
  then show "signup H e db req = (Rejected (StoreError d), db)"
    by (simp add: signup_def hmac_hex_def insert_user_def)
next
  assume "insert_fault e = Some d \<and> \<not> falsy (body_email req) \<and> \<not> falsy (body_password req)
        \<and> select_users_by_email e db (body_email req) = Inr (u # us)
        \<and> hmac_hex H (user_salt u) (body_password req) = Inr (user_password u)"
  then show "login H e db req = (Rejected (StoreError d), db)"
    by (simp add: login_def insert_session_def)
next
  assume "fst (signup H e db req) = Rejected x"
  then show "snd (signup H e db req) = db" by (rule signup_rejected_store)
next
  assume "fst (login H e db req) = Rejected x"
  then show "snd (login H e db req) = db" by (rule login_rejected_store)
next
  from signup_status[of H e db req] show "status_of (fst (signup H e db req)) \<noteq> Some 500"
    by auto
next
  from login_status[of H e db req] show "status_of (fst (login H e db req)) \<noteq> Some 500"
    by auto
qed

theorem store_failure_propagates_witness:
  "signup example_hmac select_failing_env john_store
      (signup_request (Str ''John'') (Str ''john@x.com'') (Str ''secret123''))
     = (Rejected (StoreError ''connection refused''), john_store)
   \<and> login example_hmac select_failing_env john_store
      (login_request Undefined (Str ''john@x.com'') (Str ''secret123''))
     = (Rejected (StoreError ''connection refused''), john_store)
   \<and> signup example_hmac insert_failing_env empty_store
      (signup_request (Str ''John'') (Str ''john@x.com'') (Str ''secret123''))
     = (Rejected (StoreError ''connection terminated unexpectedly''), empty_store)
   \<and> login example_hmac insert_failing_env john_store
      (login_request Undefined (Str ''john@x.com'') (Str ''secret123''))
     = (Rejected (StoreError ''connection terminated unexpectedly''), john_store)"
  using
    store_failure_propagates [of select_failing_env "''connection refused''" example_hmac
      john_store "signup_request (Str ''John'') (Str ''john@x.com'') (Str ''secret123'')"
      "''secret123''" john_row "[]" "StoreError ''connection refused''"]
    store_failure_propagates [of select_failing_env "''connection refused''" example_hmac
      john_store "login_request Undefined (Str ''john@x.com'') (Str ''secret123'')"
      "''secret123''" john_row "[]" "StoreError ''connection refused''"]
    store_failure_propagates [of insert_failing_env "''connection terminated unexpectedly''"
      example_hmac empty_store
      "signup_request (Str ''John'') (Str ''john@x.com'') (Str ''secret123'')"
      "''secret123''" john_row "[]" "StoreError ''connection terminated unexpectedly''"]
    store_failure_propagates [of insert_failing_env "''connection terminated unexpectedly''"
      example_hmac john_store
      "login_request Undefined (Str ''john@x.com'') (Str ''secret123'')"
      "''secret123''" john_row "[]" "StoreError ''connection terminated unexpectedly''"]
  by (simp add: example_defs select_users_by_email_def hmac_hex_def)

subsection \<open>C9: signup and login are not behind the session check\<close>

text \<open>
  C9, as stated, fails in one word: not every such request is answered. A POST to
  /user/signup without a password is handled by the signup handler, which validates
  nothing; the hashing throws, the exception leaves the handler uncaught and no
  response is sent.
\<close>

theorem signup_login_bypass_counterexample:
  "app example_hmac (example_env john_id) empty_store
      (signup_request (Str ''John'') (Str ''john@x.com'') Undefined)
     = (Rejected TypeError, empty_store)
   \<and> status_of (Rejected TypeError) = None"
  by (simp add: example_defs run_defs)

text \<open>
  C9, amended: the router is mounted before the session middleware, so every POST to
  /user/signup or to /user/login (in any letter case, with or without a slash at the
  end) is handled by its handler alone, without any session lookup: the outcome of the
  application is the handler's, it is the same whatever the session-id header is
  (absent or not) and however the store reads a session id, and it is never one of the
  401 errors. The request is answered, with status 201 or 400 by signup and 200 or 400
  by login, unless the handler ends with an uncaught exception (of the hashing or of
  the store), in which case no response is sent.
\<close>

theorem signup_login_bypass_session_validation:
  assumes "req_method req = POST"
      and "mounted ''user'' (req_path req) = Some rest"
      and "route_matches ''signup'' rest \<or> route_matches ''login'' rest"
  shows "app H e db req =
           (if route_matches ''signup'' rest then signup H e db req else login H e db req)
       \<and> status_of (fst (app H e db req)) \<noteq> Some 401
       \<and> app H e db (req\<lparr>req_session_id := h\<rparr>) = app H e db req
       \<and> app H (e\<lparr>uuid_in := f\<rparr>) db req = app H e db req
       \<and> ((\<exists>p. fst (app H e db req) = Responded 201 p)
          \<or> (\<exists>p. fst (app H e db req) = Responded 200 p)
          \<or> (\<exists>p. fst (app H e db req) = Responded 400 p)
          \<or> fst (app H e db req) = Rejected TypeError
          \<or> (\<exists>d. fst (app H e db req) = Rejected (StoreError d)))"
proof -
  from assms have a: "app H e db req =
           (if route_matches ''signup'' rest then signup H e db req else login H e db req)"
    by (auto simp: app_def user_router_def)
  from assms have b: "app H e db (req\<lparr>req_session_id := h\<rparr>) =
           (if route_matches ''signup'' rest then signup H e db req else login H e db req)"
    by (auto simp: app_def user_router_def signup_header_irrelevant login_header_irrelevant)
  from assms have c: "app H (e\<lparr>uuid_in := f\<rparr>) db req =
           (if route_matches ''signup'' rest then signup H e db req else login H e db req)"
    by (auto simp: app_def user_router_def signup_uuid_in_irrelevant login_uuid_in_irrelevant)
  from signup_status[of H e db req] login_status[of H e db req] a
  have d: "status_of (fst (app H e db req)) \<noteq> Some 401"
    by (auto split: if_splits)
  from signup_outcomes[of H e db req "fst (signup H e db req)" "snd (signup H e db req)"]
       login_outcomes[of H e db req "fst (login H e db req)" "snd (login H e db req)"] a
  have "(\<exists>p. fst (app H e db req) = Responded 201 p)
          \<or> (\<exists>p. fst (app H e db req) = Responded 200 p)
          \<or> (\<exists>p. fst (app H e db req) = Responded 400 p)
          \<or> fst (app H e db req) = Rejected TypeError
          \<or> (\<exists>d. fst (app H e db req) = Rejected (StoreError d))"
    by (auto split: if_splits)
  with a b c d show ?thesis by simp
qed

text \<open>
  A signup without a session id, a login at /USER/Login/ with a session id that no
  session has, and a signup without a password.
\<close>

theorem signup_login_bypass_session_validation_witness:
  "mounted ''user'' [''user'', ''signup''] = Some [''signup'']
   \<and> route_matches ''signup'' [''signup'']
   \<and> app example_hmac (example_env john_id) empty_store
      (signup_request (Str ''John'') (Str ''john@x.com'') (Str ''secret123''))
     = (Responded 201 (Json [(''userId'', john_id), (''message'', ''User created successfully'')]),
        john_store)
   \<and> mounted ''user'' [''USER'', ''Login'', ''''] = Some [''Login'', '''']
   \<and> route_matches ''login'' [''Login'', '''']
   \<and> app example_hmac (example_env john_sid) john_store
      (login_request (Str forged_sid) (Str ''john@x.com'') (Str ''secret123'')
         \<lparr>req_path := [''USER'', ''Login'', '''']\<rparr>)
     = (Responded 200 (Json [(''message'', ''Login successfully''), (''sessionId'', john_sid)]),
        john_session_store)
   \<and> app example_hmac (example_env john_id) empty_store
      (signup_request (Str ''John'') (Str ''john@x.com'') Undefined)
     = (Rejected TypeError, empty_store)"
  using
    signup_login_bypass_session_validation [of
      "signup_request (Str ''John'') (Str ''john@x.com'') (Str ''secret123'')"
      "[''signup'']" example_hmac "example_env john_id" empty_store Undefined example_uuid_in]
    signup_login_bypass_session_validation [of
      "login_request (Str forged_sid) (Str ''john@x.com'') (Str ''secret123'')
         \<lparr>req_path := [''USER'', ''Login'', '''']\<rparr>"
      "[''Login'', '''']" example_hmac "example_env john_sid" john_store Undefined
      example_uuid_in]
    signup_login_bypass_session_validation [of
      "signup_request (Str ''John'') (Str ''john@x.com'') Undefined"
      "[''signup'']" example_hmac "example_env john_id" empty_store Undefined example_uuid_in]
  by (simp add: example_defs mounted_def route_matches_def to_lower_def
        signup_def login_def select_users_by_email_def hmac_hex_def
        insert_user_def insert_session_def)

subsection \<open>C10: every other route is behind the session check\<close>

text \<open>
  C10, as stated, fails in its last part: a request to GET / whose session-id header is
  not uuid syntax does not resolve, and yet it is not answered 401; the store rejects
  the lookup and the error leaves the middleware uncaught, so no response is sent.
\<close>

theorem non_user_routes_session_gated_counterexample:
  "user_router example_hmac (example_env other_id) john_session_store
      (get_request [] (Str ''not-a-real-id'')) = None
   \<and> app example_hmac (example_env other_id) john_session_store
      (get_request [] (Str ''not-a-real-id''))
     = (Rejected (StoreError ''invalid input syntax for type uuid''), john_session_store)
   \<and> status_of (Rejected (StoreError ''invalid input syntax for type uuid'')) = None"
  by (simp add: example_defs run_defs invalid_uuid_syntax_def)

text \<open>
  C10, amended: for every request that the /user router does not answer (GET / among
  them), the greeting handler or the end of the stack is reached only if the session-id
  header denotes the id of a stored session joined with its credential. Without a
  header the answer is 401; with a header that is uuid syntax and resolves to nothing
  the answer is 401 whenever the store completes the lookup; with a header that is not
  uuid syntax, or when the store fails the lookup, the store's error leaves the
  middleware uncaught. The store is unchanged in every case.
\<close>

theorem non_user_routes_session_gated:
  assumes "user_router H e db req = None"
  shows "(fst (app H e db req) = Responded 200 (Text ''Hello, World!'')
            \<or> fst (app H e db req) = Fallthrough \<longrightarrow>
          (\<exists>s\<in>set (userSessions db). \<exists>u\<in>set (usersTable db). \<exists>t.
              req_session_id req = Str t \<and> uuid_in e t = Some (session_id s)
              \<and> session_userId s = Some (user_id u)))
       \<and> (falsy (req_session_id req) \<longrightarrow>
            app H e db req = (Responded 401 no_session_error, db))
       \<and> (\<forall>t i. req_session_id req = Str t \<and> t \<noteq> [] \<and> select_fault e = None
            \<and> uuid_in e t = Some i
            \<and> (\<forall>s\<in>set (userSessions db). \<forall>u\<in>set (usersTable db).
                  \<not> (session_id s = i \<and> session_userId s = Some (user_id u))) \<longrightarrow>
            app H e db req = (Responded 401 invalid_session_error, db))
       \<and> (\<forall>t. req_session_id req = Str t \<and> t \<noteq> [] \<and> select_fault e = None
            \<and> uuid_in e t = None \<longrightarrow>
            app H e db req = (Rejected (StoreError invalid_uuid_syntax), db))
       \<and> (\<forall>d. select_fault e = Some d \<and> \<not> falsy (req_session_id req) \<longrightarrow>
            app H e db req = (Rejected (StoreError d), db))
       \<and> snd (app H e db req) = db"
proof (intro conjI impI allI)
  assume reached: "fst (app H e db req) = Responded 200 (Text ''Hello, World!'')
            \<or> fst (app H e db req) = Fallthrough"
  show "\<exists>s\<in>set (userSessions db). \<exists>u\<in>set (usersTable db). \<exists>t.
              req_session_id req = Str t \<and> uuid_in e t = Some (session_id s)
              \<and> session_userId s = Some (user_id u)"
  proof (cases "session_mw e db req")
    case (Next req')
    from session_mw_resolves[OF this] show ?thesis by blast
  next
    case (Ended out)
    with assms have "fst (app H e db req) = out" by (simp add: app_def)
    with session_mw_Ended[OF Ended] reached show ?thesis by auto
  qed
next
  assume "falsy (req_session_id req)"
  with assms show "app H e db req = (Responded 401 no_session_error, db)"
    by (simp add: app_def session_mw_missing)
next
  fix t i
  assume "req_session_id req = Str t \<and> t \<noteq> [] \<and> select_fault e = None
            \<and> uuid_in e t = Some i
            \<and> (\<forall>s\<in>set (userSessions db). \<forall>u\<in>set (usersTable db).
                  \<not> (session_id s = i \<and> session_userId s = Some (user_id u)))"
  then have "session_mw e db req = Ended (Responded 401 invalid_session_error)"
    by (intro session_mw_no_match[of req t e i db]) auto
  with assms show "app H e db req = (Responded 401 invalid_session_error, db)"
    by (simp add: app_def)
next
  fix t
  assume "req_session_id req = Str t \<and> t \<noteq> [] \<and> select_fault e = None
            \<and> uuid_in e t = None"
  then have "session_mw e db req = Ended (Rejected (StoreError invalid_uuid_syntax))"
    by (intro session_mw_syntax[of req t e db]) auto
  with assms show "app H e db req = (Rejected (StoreError invalid_uuid_syntax), db)"
    by (simp add: app_def)
next
  fix d
  assume "select_fault e = Some d \<and> \<not> falsy (req_session_id req)"
  then have "session_mw e db req = Ended (Rejected (StoreError d))"
    by (simp add: session_mw_def select_session_join_user_def)
  with assms show "app H e db req = (Rejected (StoreError d), db)"
    by (simp add: app_def)
next
  from assms show "snd (app H e db req) = db"
    by (simp add: app_def split: mw_result.splits)
qed

text \<open>
  GET / with John's session id is greeted; GET / without a header, and GET /user with
  an id that no session has, are answered 401.
\<close>

theorem non_user_routes_session_gated_witness:
  "user_router example_hmac (example_env other_id) john_session_store
      (get_request [] (Str john_sid)) = None
   \<and> app example_hmac (example_env other_id) john_session_store
      (get_request [] (Str john_sid))
     = (Responded 200 (Text ''Hello, World!''), john_session_store)
   \<and> app example_hmac (example_env other_id) john_session_store
      (get_request [] Undefined)
     = (Responded 401 no_session_error, john_session_store)
   \<and> app example_hmac (example_env other_id) john_session_store
      (get_request [''user''] (Str forged_sid))
     = (Responded 401 invalid_session_error, john_session_store)
   \<and> app example_hmac (example_env other_id) john_session_store
      (get_request [] (Str ''not-a-real-id''))
     = (Rejected (StoreError invalid_uuid_syntax), john_session_store)
   \<and> app example_hmac select_failing_env john_session_store
      (get_request [] (Str john_sid))
     = (Rejected (StoreError ''connection refused''), john_session_store)"
  using
    non_user_routes_session_gated [of example_hmac "example_env other_id" john_session_store
      "get_request [] (Str john_sid)"]
    non_user_routes_session_gated [of example_hmac "example_env other_id" john_session_store
      "get_request [] Undefined"]
    non_user_routes_session_gated [of example_hmac "example_env other_id" john_session_store
      "get_request [''user''] (Str forged_sid)"]
    non_user_routes_session_gated [of example_hmac "example_env other_id" john_session_store
      "get_request [] (Str ''not-a-real-id'')"]
    non_user_routes_session_gated [of example_hmac select_failing_env john_session_store
      "get_request [] (Str john_sid)"]
  by (simp add: example_defs run_defs)

end
